theory Spec2Isabelle
  imports Complex_Main
begin

section \<open>Python values\<close>

text \<open>
  The status blob and every value read out of it are Python objects decoded from the
  device's JSON report. Floats are idealised as rationals; the only float arithmetic
  in the source is the true division by 10 of the attribute readings. A dictionary is
  the list of its items in insertion order, with string keys; the first binding of a
  key is the one that counts.
\<close>

datatype pyval =
    PNone
  | PBool bool
  | PInt int
  | PFloat rat
  | PStr string
  | PList "pyval list"
  | PDict "(string \<times> pyval) list"

datatype exn = ConnectionError | KeyError | TypeError

text \<open>Python truthiness, as tested by \<^verbatim>\<open>if x:\<close> and \<^verbatim>\<open>not x\<close>.\<close>

fun truthy :: "pyval \<Rightarrow> bool" where
  "truthy PNone = False"
| "truthy (PBool b) = b"
| "truthy (PInt i) = (i \<noteq> 0)"
| "truthy (PFloat r) = (r \<noteq> 0)"
| "truthy (PStr s) = (s \<noteq> [])"
| "truthy (PList xs) = (xs \<noteq> [])"
| "truthy (PDict kvs) = (kvs \<noteq> [])"

fun py_not :: "pyval \<Rightarrow> bool" where
  "py_not v = (if truthy v then False else True)"

text \<open>Subscription \<^verbatim>\<open>v[k]\<close> with a string key.\<close>

fun getitem :: "pyval \<Rightarrow> string \<Rightarrow> exn + pyval" where
  "getitem (PDict kvs) k = (case map_of kvs k of None \<Rightarrow> Inl KeyError | Some v \<Rightarrow> Inr v)"
| "getitem v k = Inl TypeError"

text \<open>True division \<^verbatim>\<open>v / 10\<close>; \<^verbatim>\<open>bool\<close> is a subclass of \<^verbatim>\<open>int\<close>.\<close>

fun truediv10 :: "pyval \<Rightarrow> exn + pyval" where
  "truediv10 (PInt i) = Inr (PFloat (of_int i / 10))"
| "truediv10 (PBool b) = Inr (PFloat ((if b then 1 else 0) / 10))"
| "truediv10 (PFloat r) = Inr (PFloat (r / 10))"
| "truediv10 v = Inl TypeError"

section \<open>The environment: device handle and clock\<close>

text \<open>
  The device handle (\<^verbatim>\<open>pytuya.OutletDevice\<close>) and the clock are outside the module.
  \<open>dev_status env n\<close> is the outcome of the \<open>n\<close>-th call of \<^verbatim>\<open>device.status()\<close>
  (counted from 0): \<open>None\<close> when it raises an \<^verbatim>\<open>Exception\<close>, \<open>Some b\<close> when it
  returns \<open>b\<close>. \<open>dev_set_status env n state switchid\<close> is the same for the \<open>n\<close>-th call
  of \<^verbatim>\<open>device.set_status(state, switchid)\<close>. \<open>py_time env n\<close> is what the \<open>n\<close>-th
  call of \<^verbatim>\<open>time()\<close> returns.
\<close>

record env =
  dev_status :: "nat \<Rightarrow> pyval option"
  dev_set_status :: "nat \<Rightarrow> bool \<Rightarrow> string \<Rightarrow> pyval option"
  py_time :: "nat \<Rightarrow> rat"

section \<open>TuyaCache\<close>

text \<open>
  The fields of a \<^verbatim>\<open>TuyaCache\<close> object, with counters for what it has done to the
  world so far: calls of the device handle, readings of the clock, seconds slept,
  lines printed and errors logged. \<open>lock\<close> is \<open>True\<close> while \<^verbatim>\<open>self._lock\<close> is held.
\<close>

record cache =
  cached_status :: pyval
  cached_status_time :: rat
  lock :: bool
  status_calls :: nat
  set_status_calls :: nat
  time_calls :: nat
  slept :: rat
  printed :: nat
  errors_logged :: nat

definition TuyaCache_init :: cache where
  "TuyaCache_init = \<lparr>cached_status = PStr [], cached_status_time = 0, lock = False,
           status_calls = 0, set_status_calls = 0, time_calls = 0,
           slept = 0, printed = 0, errors_logged = 0\<rparr>"

definition sleep :: "rat \<Rightarrow> cache \<Rightarrow> cache" where
  "sleep d c = c\<lparr>slept := slept c + d\<rparr>"

definition time :: "env \<Rightarrow> cache \<Rightarrow> rat \<times> cache" where
  "time e c = (py_time e (time_calls c), c\<lparr>time_calls := time_calls c + 1\<rparr>)"

text \<open>
  \<^verbatim>\<open>__get_status\<close>: the loop over \<^verbatim>\<open>range(5)\<close>. Falling off the end of the loop
  would return \<^verbatim>\<open>None\<close>.
\<close>

fun get_status_loop :: "env \<Rightarrow> nat list \<Rightarrow> cache \<Rightarrow> (exn + pyval) \<times> cache" where
  "get_status_loop e [] c = (Inr PNone, c)"
| "get_status_loop e (i # is) c =
     (case dev_status e (status_calls c) of
        Some status \<Rightarrow> (Inr status, c\<lparr>status_calls := status_calls c + 1\<rparr>)
      | None \<Rightarrow>
          (let c1 = c\<lparr>status_calls := status_calls c + 1\<rparr>;
               c2 = c1\<lparr>printed := printed c1 + 1\<rparr>;
               c3 = sleep 1 c2
           in if i + 1 = 3
              then (Inl ConnectionError, c3\<lparr>errors_logged := errors_logged c3 + 1\<rparr>)
              else get_status_loop e is c3))"

definition get_status :: "env \<Rightarrow> cache \<Rightarrow> (exn + pyval) \<times> cache" where
  "get_status e c = get_status_loop e [0..<5] c"

text \<open>
  \<^verbatim>\<open>set_status\<close>: clears the cache, then the loop over \<^verbatim>\<open>range(5)\<close>. The lock is
  not touched.
\<close>

fun set_status_loop ::
  "env \<Rightarrow> bool \<Rightarrow> string \<Rightarrow> nat list \<Rightarrow> cache \<Rightarrow> (exn + pyval) \<times> cache" where
  "set_status_loop e state switchid [] c = (Inr PNone, c)"
| "set_status_loop e state switchid (i # is) c =
     (case dev_set_status e (set_status_calls c) state switchid of
        Some r \<Rightarrow> (Inr r, c\<lparr>set_status_calls := set_status_calls c + 1\<rparr>)
      | None \<Rightarrow>
          (let c1 = c\<lparr>set_status_calls := set_status_calls c + 1\<rparr>;
               c2 = c1\<lparr>printed := printed c1 + 1\<rparr>
           in if i + 1 = 3
              then (Inr PNone, c2\<lparr>errors_logged := errors_logged c2 + 1\<rparr>)
              else set_status_loop e state switchid is c2))"

definition set_status :: "env \<Rightarrow> bool \<Rightarrow> string \<Rightarrow> cache \<Rightarrow> (exn + pyval) \<times> cache" where
  "set_status e state switchid c =
     (let c1 = c\<lparr>cached_status := PStr []\<rparr>;
          c2 = c1\<lparr>cached_status_time := 0\<rparr>
      in set_status_loop e state switchid [0..<5] c2)"

text \<open>
  \<^verbatim>\<open>status\<close>. \<^verbatim>\<open>self._lock.acquire()\<close> on a lock that is held does not return
  until another thread releases it: in this sequential model the call then has no
  result, \<open>None\<close>. The \<^verbatim>\<open>finally\<close> clause releases the lock on both exits.
\<close>

definition status :: "env \<Rightarrow> cache \<Rightarrow> ((exn + pyval) \<times> cache) option" where
  "status e c =
     (if lock c then None
      else
        (let c1 = c\<lparr>lock := True\<rparr>;
             (now, c2) = time e c1
         in if py_not (cached_status c2) \<or> now - cached_status_time c2 > 15
            then
              (let c3 = sleep (1 / 2) c2
               in case get_status e c3 of
                    (Inl err, c4) \<Rightarrow> Some (Inl err, c4\<lparr>lock := False\<rparr>)
                  | (Inr s, c4) \<Rightarrow>
                      (let c5 = c4\<lparr>cached_status := s\<rparr>;
                           (t, c6) = time e c5;
                           c7 = c6\<lparr>cached_status_time := t\<rparr>
                       in Some (Inr (cached_status c7), c7\<lparr>lock := False\<rparr>)))
            else Some (Inr (cached_status c2), c2\<lparr>lock := False\<rparr>)))"

text \<open>
  The two halves of one \<^verbatim>\<open>status\<close> call, for a call that another caller's
  \<^verbatim>\<open>set_status\<close> runs into. \<open>status_enter\<close> acquires the lock, reads the clock, makes
  the test and, when a refresh is due, sleeps and runs \<^verbatim>\<open>__get_status\<close>; what the call
  then holds is \<open>Cached\<close>, the exception raised, or the blob fetched. \<open>status_leave\<close>
  does the rest: the two assignments, the return and the release of the lock.
\<close>

datatype pending = Cached | Failed exn | Fetched pyval

definition status_enter :: "env \<Rightarrow> cache \<Rightarrow> (pending \<times> cache) option" where
  "status_enter e c =
     (if lock c then None
      else
        (let c1 = c\<lparr>lock := True\<rparr>;
             (now, c2) = time e c1
         in if py_not (cached_status c2) \<or> now - cached_status_time c2 > 15
            then
              (let c3 = sleep (1 / 2) c2
               in case get_status e c3 of
                    (Inl err, c4) \<Rightarrow> Some (Failed err, c4)
                  | (Inr s, c4) \<Rightarrow> Some (Fetched s, c4))
            else Some (Cached, c2)))"

definition status_leave :: "env \<Rightarrow> pending \<Rightarrow> cache \<Rightarrow> (exn + pyval) \<times> cache" where
  "status_leave e p c =
     (case p of
        Failed err \<Rightarrow> (Inl err, c\<lparr>lock := False\<rparr>)
      | Fetched s \<Rightarrow>
          (let c5 = c\<lparr>cached_status := s\<rparr>;
               (t, c6) = time e c5;
               c7 = c6\<lparr>cached_status_time := t\<rparr>
           in (Inr (cached_status c7), c7\<lparr>lock := False\<rparr>))
      | Cached \<Rightarrow> (Inr (cached_status c), c\<lparr>lock := False\<rparr>))"

text \<open>
  How many calls of \<^verbatim>\<open>device.status()\<close> one call of \<^verbatim>\<open>status\<close> makes, and a caller
  that calls \<^verbatim>\<open>status\<close> \<open>n\<close> times in a row, collecting the results.
\<close>

definition live_fetches :: "env \<Rightarrow> cache \<Rightarrow> nat" where
  "live_fetches e c =
     (case status e c of None \<Rightarrow> 0 | Some (r, c') \<Rightarrow> status_calls c' - status_calls c)"

fun status_seq :: "env \<Rightarrow> nat \<Rightarrow> cache \<Rightarrow> ((exn + pyval) list \<times> cache) option" where
  "status_seq e 0 c = Some ([], c)"
| "status_seq e (Suc n) c =
     (case status e c of
        None \<Rightarrow> None
      | Some (r, c1) \<Rightarrow>
          (case status_seq e n c1 of
             None \<Rightarrow> None
           | Some (rs, c2) \<Rightarrow> Some (r # rs, c2)))"

text \<open>
  The cache entry is empty when the blob is falsy, which is the test \<^verbatim>\<open>status\<close> itself
  makes; the timestamp is unset when it is 0, the value the constructor gives it.
\<close>

definition entry_inv :: "cache \<Rightarrow> bool" where
  "entry_inv c = ((cached_status_time c = 0) = py_not (cached_status c))"

section \<open>TuyaDevice\<close>

text \<open>
  Modelled from the spec: the attribute names \<^verbatim>\<open>ATTR_CURRENT\<close>,
  \<^verbatim>\<open>ATTR_CURRENT_CONSUMPTION\<close> and \<^verbatim>\<open>ATTR_VOLTAGE\<close> are imported from the module
  \<^verbatim>\<open>const\<close>, which is not among the sources; the spec names the attributes
  current, consumption and voltage.
\<close>

definition ATTR_CURRENT :: string where
  "ATTR_CURRENT = ''current''"

definition ATTR_CURRENT_CONSUMPTION :: string where
  "ATTR_CURRENT_CONSUMPTION = ''consumption''"

definition ATTR_VOLTAGE :: string where
  "ATTR_VOLTAGE = ''voltage''"

text \<open>
  The fields of a \<^verbatim>\<open>TuyaDevice\<close>. The attribute keys come from
  \<^verbatim>\<open>device_config.get(...)\<close>: a string, or \<^verbatim>\<open>None\<close>. \<open>d_status\<close> and \<open>d_state\<close> are
  \<^verbatim>\<open>self._status\<close> and \<^verbatim>\<open>self._state\<close>. The \<^verbatim>\<open>TuyaCache\<close> it holds is shared
  with other devices and is passed alongside.
\<close>

record tuya_device =
  name :: string
  available :: bool
  switch_id :: string
  attr_current :: "string option"
  attr_consumption :: "string option"
  attr_voltage :: "string option"
  d_status :: pyval
  d_state :: pyval

definition TuyaDevice_init ::
  "string \<Rightarrow> string \<Rightarrow> string option \<Rightarrow> string option \<Rightarrow> string option \<Rightarrow> tuya_device" where
  "TuyaDevice_init friendly_name switchid cur cons volt =
     \<lparr>name = friendly_name, available = False, switch_id = switchid,
      attr_current = cur, attr_consumption = cons, attr_voltage = volt,
      d_status = PNone, d_state = PNone\<rparr>"

definition is_on :: "tuya_device \<Rightarrow> pyval" where
  "is_on d = d_state d"

text \<open>\<^verbatim>\<open>status["dps"][k]\<close>.\<close>

definition read_dp :: "pyval \<Rightarrow> string \<Rightarrow> exn + pyval" where
  "read_dp st k = (case getitem st ''dps'' of Inl err \<Rightarrow> Inl err | Inr dps \<Rightarrow> getitem dps k)"

text \<open>Dictionary assignment \<^verbatim>\<open>attrs[k] = v\<close>, keeping insertion order.\<close>

fun setitem :: "(string \<times> pyval) list \<Rightarrow> string \<Rightarrow> pyval \<Rightarrow> (string \<times> pyval) list" where
  "setitem [] k v = [(k, v)]"
| "setitem ((k', v') # kvs) k v =
     (if k' = k then (k, v) # kvs else (k', v') # setitem kvs k v)"

text \<open>
  One block of \<^verbatim>\<open>device_state_attributes\<close>: when the configured key is truthy, read
  the data point, scale it and store it under the attribute's name.
\<close>

definition put_attr ::
  "pyval \<Rightarrow> string option \<Rightarrow> string \<Rightarrow> (pyval \<Rightarrow> exn + pyval) \<Rightarrow>
   (string \<times> pyval) list \<Rightarrow> exn + (string \<times> pyval) list" where
  "put_attr st key attr scale attrs =
     (case key of
        None \<Rightarrow> Inr attrs
      | Some k \<Rightarrow>
          if k = [] then Inr attrs
          else (case read_dp st k of
                  Inl err \<Rightarrow> Inl err
                | Inr raw \<Rightarrow>
                    (case scale raw of
                       Inl err \<Rightarrow> Inl err
                     | Inr v \<Rightarrow> Inr (setitem attrs attr v))))"

definition device_state_attributes :: "tuya_device \<Rightarrow> exn + (string \<times> pyval) list" where
  "device_state_attributes d =
     (case put_attr (d_status d) (attr_current d) ATTR_CURRENT Inr [] of
        Inl err \<Rightarrow> Inl err
      | Inr attrs1 \<Rightarrow>
          (case put_attr (d_status d) (attr_consumption d) ATTR_CURRENT_CONSUMPTION
                  truediv10 attrs1 of
             Inl err \<Rightarrow> Inl err
           | Inr attrs2 \<Rightarrow>
               put_attr (d_status d) (attr_voltage d) ATTR_VOLTAGE truediv10 attrs2))"

definition turn_on :: "env \<Rightarrow> tuya_device \<Rightarrow> cache \<Rightarrow> (exn + pyval) \<times> cache" where
  "turn_on e d c =
     (case set_status e True (switch_id d) c of
        (Inl err, c') \<Rightarrow> (Inl err, c')
      | (Inr r, c') \<Rightarrow> (Inr PNone, c'))"

definition turn_off :: "env \<Rightarrow> tuya_device \<Rightarrow> cache \<Rightarrow> (exn + pyval) \<times> cache" where
  "turn_off e d c =
     (case set_status e False (switch_id d) c of
        (Inl err, c') \<Rightarrow> (Inl err, c')
      | (Inr r, c') \<Rightarrow> (Inr PNone, c'))"

text \<open>
  \<^verbatim>\<open>update\<close>: \<^verbatim>\<open>self._status\<close> is assigned before the switch's data point is read, so
  a blob without it is kept although the \<^verbatim>\<open>except\<close> branch runs.
\<close>

definition update :: "env \<Rightarrow> tuya_device \<Rightarrow> cache \<Rightarrow> (tuya_device \<times> cache) option" where
  "update e d c =
     (case status e c of
        None \<Rightarrow> None
      | Some (Inl err, c') \<Rightarrow> Some (d\<lparr>available := False\<rparr>, c')
      | Some (Inr s, c') \<Rightarrow>
          (let d1 = d\<lparr>d_status := s\<rparr>
           in case read_dp (d_status d1) (switch_id d1) of
                Inl err \<Rightarrow> Some (d1\<lparr>available := False\<rparr>, c')
              | Inr v \<Rightarrow> Some (d1\<lparr>d_state := v, available := True\<rparr>, c')))"

text \<open>Whether a blob carries the data point \<open>k\<close>.\<close>

fun has_dp :: "pyval \<Rightarrow> string \<Rightarrow> bool" where
  "has_dp (PDict kvs) k =
     (case map_of kvs ''dps'' of
        Some (PDict dps) \<Rightarrow> (case map_of dps k of Some v \<Rightarrow> True | None \<Rightarrow> False)
      | _ \<Rightarrow> False)"
| "has_dp v k = False"

section \<open>Example environments\<close>

definition example_dps :: pyval where
  "example_dps =
     PDict [(''1'', PBool True), (''18'', PInt 120), (''19'', PInt 305), (''20'', PInt 2300)]"

definition example_blob :: pyval where
  "example_blob = PDict [(''dps'', example_dps)]"

text \<open>
  A device whose first \<open>k\<close> calls of either kind raise and whose later calls return
  \<open>b\<close> (status) and \<open>r\<close> (set_status); the clock advances half a second per reading.
\<close>

definition fails_then :: "nat \<Rightarrow> pyval \<Rightarrow> pyval \<Rightarrow> env" where
  "fails_then k b r =
     \<lparr>dev_status = (\<lambda>n. if n < k then None else Some b),
      dev_set_status = (\<lambda>n state switchid. if n < k then None else Some r),
      py_time = (\<lambda>n. 1000 + of_nat n / 2)\<rparr>"

text \<open>
  A healthy device polled every 10 seconds: the clock reads 1000 and 1000.5 in the
  first \<^verbatim>\<open>status\<close> call, 1010 in the second, 1020 and 1020.5 in the third.
\<close>

definition poll_env :: env where
  "poll_env =
     \<lparr>dev_status = (\<lambda>n. Some example_blob),
      dev_set_status = (\<lambda>n state switchid. Some PNone),
      py_time = (\<lambda>n. if n = 0 then 1000 else if n = 1 then 2001 / 2
                      else if n = 2 then 1010 else if n = 3 then 1020 else 2041 / 2)\<rparr>"

definition example_device :: tuya_device where
  "example_device =
     TuyaDevice_init ''Main Plug'' ''1'' (Some ''18'') (Some ''19'') (Some ''20'')"

text \<open>The device after a successful \<^verbatim>\<open>update\<close>, and one whose blob lacks data point 19.\<close>

definition polled_device :: tuya_device where
  "polled_device =
     example_device\<lparr>d_status := example_blob, d_state := PBool True, available := True\<rparr>"

definition partial_device :: tuya_device where
  "partial_device = example_device\<lparr>d_status :=
     PDict [(''dps'', PDict [(''1'', PBool True), (''18'', PInt 120), (''20'', PInt 2300)])]\<rparr>"

text \<open>
  Caches holding the example blob: fetched at 900 (stale at 1000), and as the first
  \<^verbatim>\<open>status\<close> call under \<open>poll_env\<close> leaves it. In \<open>held_cache\<close> another caller is
  inside \<^verbatim>\<open>status\<close> and holds the lock. \<open>entered_cache\<close> is a new cache after the
  first half of a \<^verbatim>\<open>status\<close> call that fetched once; \<open>raced_cache\<close> is what that
  call leaves when a \<^verbatim>\<open>set_status\<close> call ran before its second half.
\<close>

definition stale_cache :: cache where
  "stale_cache = TuyaCache_init\<lparr>cached_status := example_blob, cached_status_time := 900\<rparr>"

definition polled_cache :: cache where
  "polled_cache =
     TuyaCache_init\<lparr>cached_status := example_blob, cached_status_time := 2001 / 2,
       status_calls := 1, time_calls := 2, slept := 1 / 2\<rparr>"

definition held_cache :: cache where
  "held_cache = TuyaCache_init\<lparr>lock := True\<rparr>"

definition entered_cache :: cache where
  "entered_cache = TuyaCache_init\<lparr>lock := True, status_calls := 1, time_calls := 1, slept := 1 / 2\<rparr>"

definition raced_cache :: cache where
  "raced_cache =
     TuyaCache_init\<lparr>cached_status := example_blob, cached_status_time := 2001 / 2,
       status_calls := 1, set_status_calls := 1, time_calls := 2, slept := 1 / 2\<rparr>"

text \<open>A healthy device on a machine whose clock reads 0.\<close>

definition zero_clock_env :: env where
  "zero_clock_env =
     \<lparr>dev_status = (\<lambda>n. Some example_blob),
      dev_set_status = (\<lambda>n state switchid. Some PNone),
      py_time = (\<lambda>n. 0)\<rparr>"

section \<open>The retry loops\<close>

lemma range5: "[0..<5] = [0, 1, 2, 3, 4::nat]"
  by (simp add: upt_rec)

lemma get_status_loop_frame:
  "cached_status (snd (get_status_loop e is c)) = cached_status c \<and>
   cached_status_time (snd (get_status_loop e is c)) = cached_status_time c \<and>
   lock (snd (get_status_loop e is c)) = lock c \<and>
   set_status_calls (snd (get_status_loop e is c)) = set_status_calls c \<and>
   time_calls (snd (get_status_loop e is c)) = time_calls c"
  by (induction "is" arbitrary: c) (simp_all add: sleep_def Let_def split: option.splits)

lemma get_status_frame:
  "get_status e c = (r, c') \<Longrightarrow>
   cached_status c' = cached_status c \<and> cached_status_time c' = cached_status_time c \<and>
   lock c' = lock c \<and> set_status_calls c' = set_status_calls c \<and> time_calls c' = time_calls c"
  using get_status_loop_frame [of e "[0..<5]" c] by (simp add: get_status_def)

lemma get_status_cases:
  "dev_status e (status_calls c) = Some b \<Longrightarrow>
     get_status e c = (Inr b, c\<lparr>status_calls := status_calls c + 1\<rparr>)"
  "dev_status e (status_calls c) = None \<Longrightarrow> dev_status e (status_calls c + 1) = Some b \<Longrightarrow>
     get_status e c = (Inr b, c\<lparr>status_calls := status_calls c + 2, printed := printed c + 1,
       slept := slept c + 1\<rparr>)"
  "dev_status e (status_calls c) = None \<Longrightarrow> dev_status e (status_calls c + 1) = None \<Longrightarrow>
   dev_status e (status_calls c + 2) = Some b \<Longrightarrow>
     get_status e c = (Inr b, c\<lparr>status_calls := status_calls c + 3, printed := printed c + 2,
       slept := slept c + 2\<rparr>)"
  "dev_status e (status_calls c) = None \<Longrightarrow> dev_status e (status_calls c + 1) = None \<Longrightarrow>
   dev_status e (status_calls c + 2) = None \<Longrightarrow>
     get_status e c = (Inl ConnectionError, c\<lparr>status_calls := status_calls c + 3,
       printed := printed c + 3, slept := slept c + 3, errors_logged := errors_logged c + 1\<rparr>)"
  by (simp_all add: get_status_def range5 sleep_def)

lemma get_status_calls:
  "get_status e c = (r, c') \<Longrightarrow> status_calls c < status_calls c' \<and> status_calls c' \<le> status_calls c + 3"
  by (auto simp add: get_status_def range5 sleep_def Let_def split: option.splits)

lemma get_status_fetched:
  "get_status e c = (Inr s, c') \<Longrightarrow> \<exists>n. dev_status e n = Some s"
  by (auto simp add: get_status_def range5 sleep_def Let_def split: option.splits)

lemma get_status_error:
  "get_status e c = (Inl err, c') \<Longrightarrow> err = ConnectionError"
  by (auto simp add: get_status_def range5 sleep_def Let_def split: option.splits)

lemma status_fresh:
  "\<not> lock c \<Longrightarrow> \<not> (py_not (cached_status c) \<or> 15 < py_time e (time_calls c) - cached_status_time c) \<Longrightarrow>
   status e c = Some (Inr (cached_status c), c\<lparr>time_calls := time_calls c + 1\<rparr>)"
  by (simp add: status_def time_def Let_def)

lemma status_refresh:
  "\<not> lock c \<Longrightarrow> py_not (cached_status c) \<or> 15 < py_time e (time_calls c) - cached_status_time c \<Longrightarrow>
   status e c =
     (case get_status e (c\<lparr>lock := True, time_calls := time_calls c + 1, slept := slept c + 1 / 2\<rparr>) of
        (Inl err, c4) \<Rightarrow> Some (Inl err, c4\<lparr>lock := False\<rparr>)
      | (Inr s, c4) \<Rightarrow>
          Some (Inr s, c4\<lparr>cached_status := s, time_calls := time_calls c4 + 1,
                  cached_status_time := py_time e (time_calls c4), lock := False\<rparr>))"
  by (auto simp add: status_def time_def sleep_def Let_def split: prod.splits sum.splits)

lemma status_split:
  "status e c =
     (case status_enter e c of None \<Rightarrow> None | Some (p, c') \<Rightarrow> Some (status_leave e p c'))"
  by (auto simp add: status_def status_enter_def status_leave_def time_def Let_def
      split: prod.splits sum.splits)

lemma status_ok:
  assumes "\<not> lock c"
    and "py_not (cached_status c) \<or> 15 < py_time e (time_calls c) - cached_status_time c"
    and "k < 3" and "\<forall>i<k. dev_status e (status_calls c + i) = None"
    and "dev_status e (status_calls c + k) = Some b"
  shows "\<exists>c'. status e c = Some (Inr b, c') \<and> status_calls c' = status_calls c + k + 1 \<and>
           cached_status c' = b \<and> cached_status_time c' = py_time e (time_calls c + 1) \<and>
           \<not> lock c'"
proof -
  let ?c3 = "c\<lparr>lock := True, time_calls := time_calls c + 1, slept := slept c + 1 / 2\<rparr>"
  have sc: "status_calls ?c3 = status_calls c" by simp
  from \<open>k < 3\<close> consider "k = 0" | "k = 1" | "k = 2" by linarith
  then show ?thesis
  proof cases
    case 1
    with assms(5) have "dev_status e (status_calls ?c3) = Some b" by simp
    from get_status_cases(1) [OF this] show ?thesis
      using assms(1,2) 1 by (simp add: status_refresh)
  next
    case 2
    with assms(4,5) have "dev_status e (status_calls ?c3) = None"
      "dev_status e (status_calls ?c3 + 1) = Some b" by simp_all
    from get_status_cases(2) [OF this] show ?thesis
      using assms(1,2) 2 by (simp add: status_refresh)
  next
    case 3
    have f: "\<And>i. i < 2 \<Longrightarrow> dev_status e (status_calls c + i) = None"
      using assms(4) 3 by blast
    from f [of 0] f [of 1] 3 assms(5) have "dev_status e (status_calls ?c3) = None"
      "dev_status e (status_calls ?c3 + 1) = None" "dev_status e (status_calls ?c3 + 2) = Some b" by simp_all
    from get_status_cases(3) [OF this] show ?thesis
      using assms(1,2) 3 by (simp add: status_refresh)
  qed
qed

lemma status_exhausted:
  assumes "\<not> lock c"
    and "py_not (cached_status c) \<or> 15 < py_time e (time_calls c) - cached_status_time c"
    and "\<forall>i<3. dev_status e (status_calls c + i) = None"
  shows "\<exists>c'. status e c = Some (Inl ConnectionError, c') \<and> status_calls c' = status_calls c + 3 \<and>
           cached_status c' = cached_status c \<and> cached_status_time c' = cached_status_time c \<and>
           \<not> lock c'"
proof -
  let ?c3 = "c\<lparr>lock := True, time_calls := time_calls c + 1, slept := slept c + 1 / 2\<rparr>"
  have f: "\<And>i. i < 3 \<Longrightarrow> dev_status e (status_calls c + i) = None"
    using assms(3) by blast
  from f [of 0] f [of 1] f [of 2] have "dev_status e (status_calls ?c3) = None"
      "dev_status e (status_calls ?c3 + 1) = None" "dev_status e (status_calls ?c3 + 2) = None" by simp_all
  from get_status_cases(4) [OF this] show ?thesis
    using assms(1,2) by (simp add: status_refresh)
qed

lemma set_status_loop_frame:
  "cached_status (snd (set_status_loop e state switchid is c)) = cached_status c \<and>
   cached_status_time (snd (set_status_loop e state switchid is c)) = cached_status_time c \<and>
   lock (snd (set_status_loop e state switchid is c)) = lock c \<and>
   status_calls (snd (set_status_loop e state switchid is c)) = status_calls c \<and>
   time_calls (snd (set_status_loop e state switchid is c)) = time_calls c"
  by (induction "is" arbitrary: c) (simp_all add: Let_def split: option.splits)

lemma set_status_entry:
  "set_status e state switchid c = (r, c') \<Longrightarrow>
   cached_status c' = PStr [] \<and> cached_status_time c' = 0 \<and> lock c' = lock c \<and>
   status_calls c' = status_calls c \<and> time_calls c' = time_calls c"
  using set_status_loop_frame [of e state switchid "[0..<5]"
      "c\<lparr>cached_status := PStr [], cached_status_time := 0\<rparr>"]
  by (simp add: set_status_def Let_def)

lemma set_status_cases:
  "dev_set_status e (set_status_calls c) state switchid = Some r \<Longrightarrow>
     set_status e state switchid c =
       (Inr r, c\<lparr>cached_status := PStr [], cached_status_time := 0,
          set_status_calls := set_status_calls c + 1\<rparr>)"
  "dev_set_status e (set_status_calls c) state switchid = None \<Longrightarrow>
   dev_set_status e (set_status_calls c + 1) state switchid = Some r \<Longrightarrow>
     set_status e state switchid c =
       (Inr r, c\<lparr>cached_status := PStr [], cached_status_time := 0,
          set_status_calls := set_status_calls c + 2, printed := printed c + 1\<rparr>)"
  "dev_set_status e (set_status_calls c) state switchid = None \<Longrightarrow>
   dev_set_status e (set_status_calls c + 1) state switchid = None \<Longrightarrow>
   dev_set_status e (set_status_calls c + 2) state switchid = Some r \<Longrightarrow>
     set_status e state switchid c =
       (Inr r, c\<lparr>cached_status := PStr [], cached_status_time := 0,
          set_status_calls := set_status_calls c + 3, printed := printed c + 2\<rparr>)"
  "dev_set_status e (set_status_calls c) state switchid = None \<Longrightarrow>
   dev_set_status e (set_status_calls c + 1) state switchid = None \<Longrightarrow>
   dev_set_status e (set_status_calls c + 2) state switchid = None \<Longrightarrow>
     set_status e state switchid c =
       (Inr PNone, c\<lparr>cached_status := PStr [], cached_status_time := 0,
          set_status_calls := set_status_calls c + 3, printed := printed c + 3,
          errors_logged := errors_logged c + 1\<rparr>)"
  by (simp_all add: set_status_def range5 Let_def)

lemma set_status_returns:
  "\<exists>v c'. set_status e state switchid c = (Inr v, c') \<and>
     set_status_calls c < set_status_calls c' \<and> set_status_calls c' \<le> set_status_calls c + 3"
  by (auto simp add: set_status_def range5 Let_def split: option.splits)

lemma live_fetches_refresh:
  assumes "\<not> lock c"
    and "py_not (cached_status c) \<or> 15 < py_time e (time_calls c) - cached_status_time c"
  shows "0 < live_fetches e c"
proof -
  let ?c3 = "c\<lparr>lock := True, time_calls := time_calls c + 1, slept := slept c + 1 / 2\<rparr>"
  obtain r c4 where g: "get_status e ?c3 = (r, c4)" by (cases "get_status e ?c3")
  from get_status_calls [OF g] have "status_calls c < status_calls c4" by simp
  with g show ?thesis
    by (auto simp add: live_fetches_def status_refresh [OF assms] split: sum.splits)
qed

lemma live_fetches_fresh:
  assumes "\<not> lock c"
    and "\<not> (py_not (cached_status c) \<or> 15 < py_time e (time_calls c) - cached_status_time c)"
  shows "live_fetches e c = 0"
  by (simp add: live_fetches_def status_fresh [OF assms])

lemma set_status_ok:
  assumes "k < 3" and "\<forall>i<k. dev_set_status e (set_status_calls c + i) state switchid = None"
    and "dev_set_status e (set_status_calls c + k) state switchid = Some r"
  shows "\<exists>c'. set_status e state switchid c = (Inr r, c') \<and>
           set_status_calls c' = set_status_calls c + k + 1 \<and>
           cached_status c' = PStr [] \<and> cached_status_time c' = 0"
proof -
  from \<open>k < 3\<close> consider "k = 0" | "k = 1" | "k = 2" by linarith
  then show ?thesis
  proof cases
    case 1
    with assms(3) set_status_cases(1) [of e c state switchid r] show ?thesis by simp
  next
    case 2
    with assms(2,3) set_status_cases(2) [of e c state switchid r] show ?thesis by simp
  next
    case 3
    have f: "\<And>i. i < 2 \<Longrightarrow> dev_set_status e (set_status_calls c + i) state switchid = None"
      using assms(2) 3 by blast
    from f [of 0] f [of 1] 3 assms(3) set_status_cases(3) [of e c state switchid r]
    show ?thesis by simp
  qed
qed

lemma set_status_abandoned:
  assumes "\<forall>i<3. dev_set_status e (set_status_calls c + i) state switchid = None"
  shows "\<exists>c'. set_status e state switchid c = (Inr PNone, c') \<and>
           set_status_calls c' = set_status_calls c + 3 \<and>
           cached_status c' = PStr [] \<and> cached_status_time c' = 0 \<and>
           errors_logged c' = errors_logged c + 1"
proof -
  have f: "\<And>i. i < 3 \<Longrightarrow> dev_set_status e (set_status_calls c + i) state switchid = None"
    using assms by blast
  from f [of 0] f [of 1] f [of 2] set_status_cases(4) [of e c state switchid]
  show ?thesis by simp
qed

section \<open>Evaluations on the example environments\<close>

lemma status_stale_exhausted:
  "status (fails_then 5 example_blob PNone) stale_cache =
     Some (Inl ConnectionError, stale_cache\<lparr>status_calls := 3, time_calls := 1, slept := 7 / 2,
       printed := 3, errors_logged := 1\<rparr>)"
  by (simp add: status_def time_def sleep_def get_status_def range5 stale_cache_def
      TuyaCache_init_def fails_then_def Let_def)

lemma status_first_fetch:
  "status (fails_then 0 b r) TuyaCache_init =
     Some (Inr b, TuyaCache_init\<lparr>cached_status := b, cached_status_time := 2001 / 2,
       status_calls := 1, time_calls := 2, slept := 1 / 2\<rparr>)"
  by (simp add: status_def time_def sleep_def get_status_def range5
      TuyaCache_init_def fails_then_def Let_def)

lemma read_dp_example: "read_dp example_blob ''1'' = Inr (PBool True)"
  by (simp add: read_dp_def example_blob_def example_dps_def)

section \<open>The read path\<close>

text \<open>
  C1 (as the code has it). The raise sits inside the test \<^verbatim>\<open>i + 1 == 3\<close>, so the third
  failure ends the loop. When a live refresh is due and the lock is free: for every
  \<open>k < 3\<close>, if the device handle's fetch fails exactly \<open>k\<close> times and then succeeds,
  one \<^verbatim>\<open>status\<close> call makes exactly \<open>k + 1\<close> calls of the handle, returns the fetched
  blob and stores it in the cache with the clock's next reading; if the handle fails
  three times in a row, the call makes exactly 3 calls, raises \<^verbatim>\<open>ConnectionError\<close> and
  leaves the cache entry as it was.
\<close>

theorem status_retry_budget:
  assumes "\<not> lock c"
    and "py_not (cached_status c) \<or> 15 < py_time e (time_calls c) - cached_status_time c"
  shows "(k < 3 \<and> (\<forall>i<k. dev_status e (status_calls c + i) = None) \<and>
            dev_status e (status_calls c + k) = Some b \<longrightarrow>
          (\<exists>c'. status e c = Some (Inr b, c') \<and> status_calls c' = status_calls c + k + 1 \<and>
             cached_status c' = b \<and> cached_status_time c' = py_time e (time_calls c + 1) \<and>
             \<not> lock c')) \<and>
         ((\<forall>i<3. dev_status e (status_calls c + i) = None) \<longrightarrow>
          (\<exists>c'. status e c = Some (Inl ConnectionError, c') \<and>
             status_calls c' = status_calls c + 3 \<and>
             cached_status c' = cached_status c \<and>
             cached_status_time c' = cached_status_time c \<and> \<not> lock c'))"
  using status_ok [OF assms] status_exhausted [OF assms] by blast

theorem status_retry_budget_witness:
  "(\<exists>c'. status (fails_then 2 example_blob PNone) TuyaCache_init = Some (Inr example_blob, c') \<and>
      status_calls c' = 3 \<and> cached_status c' = example_blob \<and> cached_status_time c' = 2001 / 2) \<and>
   (\<exists>c'. status (fails_then 5 example_blob PNone) TuyaCache_init = Some (Inl ConnectionError, c') \<and>
      status_calls c' = 3 \<and> cached_status c' = PStr [] \<and> cached_status_time c' = 0)"
proof -
  let ?e2 = "fails_then 2 example_blob PNone" and ?e5 = "fails_then 5 example_blob PNone"
  have l: "\<not> lock TuyaCache_init" by (simp add: TuyaCache_init_def)
  have s: "py_not (cached_status TuyaCache_init) \<or>
      15 < py_time e (time_calls TuyaCache_init) - cached_status_time TuyaCache_init" for e :: env
    by (simp add: TuyaCache_init_def)
  have h2: "2 < (3::nat) \<and> (\<forall>i<2. dev_status ?e2 (status_calls TuyaCache_init + i) = None) \<and>
      dev_status ?e2 (status_calls TuyaCache_init + 2) = Some example_blob"
    by (simp add: TuyaCache_init_def fails_then_def)
  have h5: "\<forall>i<3. dev_status ?e5 (status_calls TuyaCache_init + i) = None"
    by (simp add: TuyaCache_init_def fails_then_def)
  from status_retry_budget [OF l s, of 2 ?e2 example_blob] h2
  obtain c2 where c2: "status ?e2 TuyaCache_init = Some (Inr example_blob, c2)"
    "status_calls c2 = status_calls TuyaCache_init + 2 + 1" "cached_status c2 = example_blob"
    "cached_status_time c2 = py_time ?e2 (time_calls TuyaCache_init + 1)"
    by blast
  from status_retry_budget [OF l s, of 0 ?e5 PNone] h5
  obtain c5 where c5: "status ?e5 TuyaCache_init = Some (Inl ConnectionError, c5)"
    "status_calls c5 = status_calls TuyaCache_init + 3"
    "cached_status c5 = cached_status TuyaCache_init"
    "cached_status_time c5 = cached_status_time TuyaCache_init"
    by blast
  have "status_calls c2 = 3" "cached_status_time c2 = 2001 / 2"
    using c2(2,4) by (simp_all add: TuyaCache_init_def fails_then_def)
  moreover have "status_calls c5 = 3" "cached_status c5 = PStr []" "cached_status_time c5 = 0"
    using c5(2,3,4) by (simp_all add: TuyaCache_init_def)
  ultimately show ?thesis using c2(1,3) c5(1) by blast
qed

text \<open>
  C1 as stated fails at \<open>k = 3\<close>: the handle fails three times and would succeed on its
  fourth call, but \<^verbatim>\<open>status\<close> on a new cache stops after the third call and raises,
  the cache still empty.
\<close>

theorem status_retry_budget_counterexample:
  "dev_status (fails_then 3 example_blob PNone) 3 = Some example_blob \<and>
   status (fails_then 3 example_blob PNone) TuyaCache_init =
     Some (Inl ConnectionError,
       TuyaCache_init\<lparr>status_calls := 3, time_calls := 1, slept := 7 / 2, printed := 3,
         errors_logged := 1\<rparr>)"
  by (simp add: status_def time_def sleep_def get_status_def range5 TuyaCache_init_def
      fails_then_def Let_def)

text \<open>
  C10. If a \<^verbatim>\<open>status\<close> call raises, the cached blob and its timestamp are what they
  were before the call; a stale blob is kept, not cleared.
\<close>

theorem status_error_keeps_entry:
  "status e c = Some (Inl err, c') \<Longrightarrow>
   cached_status c' = cached_status c \<and> cached_status_time c' = cached_status_time c"
proof -
  assume a: "status e c = Some (Inl err, c')"
  then have l: "\<not> lock c" by (auto simp add: status_def split: if_splits)
  show ?thesis
  proof (cases "py_not (cached_status c) \<or> 15 < py_time e (time_calls c) - cached_status_time c")
    case True
    obtain r c4 where g: "get_status e (c\<lparr>lock := True, time_calls := time_calls c + 1,
        slept := slept c + 1 / 2\<rparr>) = (r, c4)" by (cases "get_status e (c\<lparr>lock := True, time_calls := time_calls c + 1,
        slept := slept c + 1 / 2\<rparr>)")
    from a g have "c' = c4\<lparr>lock := False\<rparr>"
      by (auto simp add: status_refresh [OF l True] split: sum.splits)
    with get_status_frame [OF g] show ?thesis by simp
  next
    case False
    with a l show ?thesis by (simp add: status_fresh)
  qed
qed

theorem status_error_keeps_entry_witness:
  "\<exists>c'. status (fails_then 5 example_blob PNone) stale_cache = Some (Inl ConnectionError, c') \<and>
     cached_status c' = example_blob \<and> cached_status_time c' = 900"
proof -
  have "cached_status stale_cache = example_blob" "cached_status_time stale_cache = 900"
    by (simp_all add: stale_cache_def)
  with status_error_keeps_entry [OF status_stale_exhausted] status_stale_exhausted
  show ?thesis by metis
qed

lemma status_seq_fresh:
  "\<not> lock c \<Longrightarrow> truthy (cached_status c) \<Longrightarrow>
   \<forall>i<n. py_time e (time_calls c + i) - cached_status_time c \<le> 15 \<Longrightarrow>
   status_seq e n c = Some (replicate n (Inr (cached_status c)), c\<lparr>time_calls := time_calls c + n\<rparr>)"
proof (induction n arbitrary: c)
  case 0
  then show ?case by simp
next
  case (Suc n)
  let ?c1 = "c\<lparr>time_calls := time_calls c + 1\<rparr>"
  from Suc.prems(3) have "py_time e (time_calls c + 0) - cached_status_time c \<le> 15" by blast
  with Suc.prems(1,2) have s: "status e c = Some (Inr (cached_status c), ?c1)"
    by (simp add: status_fresh)
  have "\<forall>i<n. py_time e (time_calls ?c1 + i) - cached_status_time ?c1 \<le> 15"
  proof (intro allI impI)
    fix i assume "i < n"
    then have "Suc i < Suc n" by simp
    with Suc.prems(3) have "py_time e (time_calls c + Suc i) - cached_status_time c \<le> 15" by blast
    then show "py_time e (time_calls ?c1 + i) - cached_status_time ?c1 \<le> 15" by simp
  qed
  with Suc.IH [of ?c1] Suc.prems(1,2)
  have "status_seq e n ?c1 = Some (replicate n (Inr (cached_status c)), ?c1\<lparr>time_calls := time_calls ?c1 + n\<rparr>)"
    by simp
  with s show ?case by simp
qed

text \<open>
  C3 (as the code has it). With the lock free, a \<^verbatim>\<open>status\<close> call fetches from the
  device exactly when the cached blob is empty or \<open>now - fetchedAt > 15\<close>; a call that
  does not fetch returns the memoized blob and changes nothing but the count of clock
  readings. So \<open>n\<close> calls in a row, each made no later than 15 seconds after the
  timestamp of the cached non-empty blob, all return that blob and never call the
  device. The age is counted from the last fetch, not from the previous call.
\<close>

theorem status_staleness:
  assumes "\<not> lock c"
  shows "(0 < live_fetches e c) =
           (py_not (cached_status c) \<or> 15 < py_time e (time_calls c) - cached_status_time c) \<and>
         (live_fetches e c = 0 \<longrightarrow>
            status e c = Some (Inr (cached_status c), c\<lparr>time_calls := time_calls c + 1\<rparr>)) \<and>
         (truthy (cached_status c) \<and>
          (\<forall>i<n. py_time e (time_calls c + i) - cached_status_time c \<le> 15) \<longrightarrow>
            status_seq e n c =
              Some (replicate n (Inr (cached_status c)), c\<lparr>time_calls := time_calls c + n\<rparr>))"
proof -
  have a: "(0 < live_fetches e c) =
      (py_not (cached_status c) \<or> 15 < py_time e (time_calls c) - cached_status_time c)"
    using live_fetches_refresh [OF assms, of e] live_fetches_fresh [OF assms, of e] by fastforce
  then have "live_fetches e c = 0 \<longrightarrow>
      status e c = Some (Inr (cached_status c), c\<lparr>time_calls := time_calls c + 1\<rparr>)"
    using status_fresh [OF assms, of e] by auto
  with a status_seq_fresh [OF assms, of n e] show ?thesis by blast
qed

theorem status_staleness_witness:
  "0 < live_fetches poll_env TuyaCache_init \<and> live_fetches poll_env polled_cache = 0 \<and>
   status_seq poll_env 1 polled_cache =
     Some ([Inr example_blob], polled_cache\<lparr>time_calls := 3\<rparr>)"
proof -
  have l: "\<not> lock TuyaCache_init" "\<not> lock polled_cache"
    by (simp_all add: TuyaCache_init_def polled_cache_def)
  have "py_not (cached_status TuyaCache_init)" by (simp add: TuyaCache_init_def)
  with status_staleness [OF l(1), of poll_env] have a: "0 < live_fetches poll_env TuyaCache_init"
    by blast
  have f: "\<not> (py_not (cached_status polled_cache) \<or>
      15 < py_time poll_env (time_calls polled_cache) - cached_status_time polled_cache)"
    by (simp add: polled_cache_def TuyaCache_init_def poll_env_def example_blob_def)
  with status_staleness [OF l(2), of poll_env] have b: "live_fetches poll_env polled_cache = 0"
    by simp
  have t: "truthy (cached_status polled_cache) \<and>
      (\<forall>i<1. py_time poll_env (time_calls polled_cache + i) - cached_status_time polled_cache \<le> 15)"
    by (simp add: polled_cache_def TuyaCache_init_def poll_env_def example_blob_def)
  with status_staleness [OF l(2), of poll_env 1]
  have "status_seq poll_env 1 polled_cache =
      Some (replicate 1 (Inr (cached_status polled_cache)),
        polled_cache\<lparr>time_calls := time_calls polled_cache + 1\<rparr>)" by blast
  then have "status_seq poll_env 1 polled_cache =
     Some ([Inr example_blob], polled_cache\<lparr>time_calls := 3\<rparr>)"
    by (simp add: polled_cache_def TuyaCache_init_def)
  with a b show ?thesis by blast
qed

text \<open>
  C3 as stated fails for three calls 10 seconds apart on a new cache: the clock reads
  1000, 1010 and 1020 at their starts, the first call fetches and stamps the blob
  1000.5, the second is served from the cache, and the third finds the blob 19.5
  seconds old and fetches again: two fetches, not one.
\<close>

theorem status_staleness_counterexample:
  "py_time poll_env 0 = 1000 \<and> py_time poll_env 2 = 1010 \<and> py_time poll_env 3 = 1020 \<and>
   status_seq poll_env 3 TuyaCache_init =
     Some ([Inr example_blob, Inr example_blob, Inr example_blob],
       TuyaCache_init\<lparr>cached_status := example_blob, cached_status_time := 2041 / 2,
         status_calls := 2, time_calls := 5, slept := 1\<rparr>)"
  by (simp add: eval_nat_numeral status_def time_def sleep_def get_status_def range5
      TuyaCache_init_def poll_env_def example_blob_def Let_def)

section \<open>The write path\<close>

text \<open>
  With no \<^verbatim>\<open>status\<close> call in flight: whatever the write does, \<^verbatim>\<open>set_status\<close> leaves
  the cache entry empty (blob \<^verbatim>\<open>""\<close>, timestamp 0), the entry being cleared before the
  loop and the loop never touching it, and a \<^verbatim>\<open>status\<close> call made next fetches from
  the device, whatever the clock reads.
\<close>

lemma set_status_then_status_fetches:
  assumes "set_status e state switchid c = (r, c1)"
  shows "cached_status c1 = PStr [] \<and> cached_status_time c1 = 0 \<and>
         (\<forall>is c0. cached_status (snd (set_status_loop e state switchid is c0)) = cached_status c0 \<and>
            cached_status_time (snd (set_status_loop e state switchid is c0)) =
              cached_status_time c0) \<and>
         (\<not> lock c \<longrightarrow> 0 < live_fetches e' c1)"
proof -
  note s = set_status_entry [OF assms]
  then have "py_not (cached_status c1)" by simp
  with s live_fetches_refresh [of c1 e'] set_status_loop_frame [of e state switchid]
  show ?thesis by simp
qed

text \<open>
  C4 (the code at the failing input). \<^verbatim>\<open>set_status\<close> does not take the lock, so it can
  run while another caller is inside \<^verbatim>\<open>status\<close>. On a new cache, a \<^verbatim>\<open>status\<close> call
  acquires the lock and fetches the example blob (switch on); before it stores the
  blob, \<^verbatim>\<open>set_status(False, "1")\<close> clears the entry and writes to the device; the
  \<^verbatim>\<open>status\<close> call then stores the blob it fetched before the write, stamps it 1000.5
  and releases the lock. The next \<^verbatim>\<open>status\<close> call, at 1001, finds the entry set and
  fresh: it returns the blob fetched before the write and makes no call of the device.
\<close>

theorem set_status_during_status:
  "status_enter (fails_then 0 example_blob PNone) TuyaCache_init =
     Some (Fetched example_blob, entered_cache) \<and>
   set_status (fails_then 0 example_blob PNone) False ''1'' entered_cache =
     (Inr PNone, entered_cache\<lparr>set_status_calls := 1\<rparr>) \<and>
   status_leave (fails_then 0 example_blob PNone) (Fetched example_blob)
       (entered_cache\<lparr>set_status_calls := 1\<rparr>) =
     (Inr example_blob, raced_cache) \<and>
   status (fails_then 0 example_blob PNone) raced_cache =
     Some (Inr example_blob, raced_cache\<lparr>time_calls := 3\<rparr>) \<and>
   live_fetches (fails_then 0 example_blob PNone) raced_cache = 0"
proof -
  let ?e = "fails_then 0 example_blob PNone"
  have a: "status_enter ?e TuyaCache_init = Some (Fetched example_blob, entered_cache)"
    by (simp add: status_enter_def time_def sleep_def get_status_def range5 TuyaCache_init_def
        fails_then_def entered_cache_def Let_def)
  have b: "set_status ?e False ''1'' entered_cache =
      (Inr PNone, entered_cache\<lparr>set_status_calls := 1\<rparr>)"
    by (simp add: set_status_def range5 TuyaCache_init_def fails_then_def entered_cache_def Let_def)
  have c: "status_leave ?e (Fetched example_blob) (entered_cache\<lparr>set_status_calls := 1\<rparr>) =
      (Inr example_blob, raced_cache)"
    by (simp add: status_leave_def time_def TuyaCache_init_def fails_then_def entered_cache_def
        raced_cache_def Let_def)
  have d: "status ?e raced_cache = Some (Inr example_blob, raced_cache\<lparr>time_calls := 3\<rparr>)"
    by (simp add: status_def time_def TuyaCache_init_def fails_then_def raced_cache_def
        example_blob_def Let_def)
  then have "live_fetches ?e raced_cache = 0" by (simp add: live_fetches_def)
  with a b c d show ?thesis by blast
qed

text \<open>
  C5 (as the code has it). The return sits inside the test \<^verbatim>\<open>i + 1 == 3\<close>, so
  \<^verbatim>\<open>set_status\<close> makes at most 3 attempts. If the first three attempts fail it logs one
  error and returns \<^verbatim>\<open>None\<close> without raising, the cache entry empty. If the write
  fails \<open>k < 3\<close> times and then succeeds, it makes \<open>k + 1\<close> calls and returns what the
  device handle returned, the cache entry empty. It never raises, and makes between 1
  and 3 calls. Success and abandonment look alike to the caller only when the handle
  itself returns \<^verbatim>\<open>None\<close>.
\<close>

theorem set_status_retry_budget:
  "((\<forall>i<3. dev_set_status e (set_status_calls c + i) state switchid = None) \<longrightarrow>
      (\<exists>c'. set_status e state switchid c = (Inr PNone, c') \<and>
         set_status_calls c' = set_status_calls c + 3 \<and>
         cached_status c' = PStr [] \<and> cached_status_time c' = 0 \<and>
         errors_logged c' = errors_logged c + 1)) \<and>
   (k < 3 \<and> (\<forall>i<k. dev_set_status e (set_status_calls c + i) state switchid = None) \<and>
      dev_set_status e (set_status_calls c + k) state switchid = Some r \<longrightarrow>
      (\<exists>c'. set_status e state switchid c = (Inr r, c') \<and>
         set_status_calls c' = set_status_calls c + k + 1 \<and>
         cached_status c' = PStr [] \<and> cached_status_time c' = 0)) \<and>
   (\<exists>v c'. set_status e state switchid c = (Inr v, c') \<and>
      set_status_calls c < set_status_calls c' \<and> set_status_calls c' \<le> set_status_calls c + 3)"
  using set_status_ok [of k e c state switchid r] set_status_abandoned [of e c state switchid]
    set_status_returns [of e state switchid c]
  by blast

theorem set_status_retry_budget_witness:
  "(\<exists>c'. set_status (fails_then 5 example_blob PNone) True ''1'' stale_cache = (Inr PNone, c') \<and>
      set_status_calls c' = 3 \<and> cached_status c' = PStr [] \<and> cached_status_time c' = 0) \<and>
   (\<exists>c'. set_status (fails_then 2 example_blob (PStr ''data'')) True ''1'' stale_cache =
      (Inr (PStr ''data''), c') \<and>
      set_status_calls c' = 3 \<and> cached_status c' = PStr [] \<and> cached_status_time c' = 0)"
proof -
  let ?e5 = "fails_then 5 example_blob PNone" and ?e2 = "fails_then 2 example_blob (PStr ''data'')"
  have n: "set_status_calls stale_cache = 0" by (simp add: stale_cache_def TuyaCache_init_def)
  have h5: "\<forall>i<3. dev_set_status ?e5 (set_status_calls stale_cache + i) True ''1'' = None"
    by (simp add: n fails_then_def)
  have h2: "2 < (3::nat) \<and> (\<forall>i<2. dev_set_status ?e2 (set_status_calls stale_cache + i) True ''1'' = None) \<and>
      dev_set_status ?e2 (set_status_calls stale_cache + 2) True ''1'' = Some (PStr ''data'')"
    by (simp add: n fails_then_def)
  from set_status_retry_budget [of ?e5 stale_cache True "''1''"] h5
  obtain c5 where c5: "set_status ?e5 True ''1'' stale_cache = (Inr PNone, c5)"
    "set_status_calls c5 = set_status_calls stale_cache + 3"
    "cached_status c5 = PStr []" "cached_status_time c5 = 0"
    by blast
  from set_status_retry_budget [of ?e2 stale_cache True "''1''" 2 "PStr ''data''"] h2
  obtain c2 where c2: "set_status ?e2 True ''1'' stale_cache = (Inr (PStr ''data''), c2)"
    "set_status_calls c2 = set_status_calls stale_cache + 2 + 1"
    "cached_status c2 = PStr []" "cached_status_time c2 = 0"
    by blast
  have "set_status_calls c5 = 3" "set_status_calls c2 = 3" using c5(2) c2(2) n by simp_all
  with c5(1,3,4) c2(1,3,4) show ?thesis by blast
qed

text \<open>
  C5 as stated fails twice. A handle that fails three times and would succeed on its
  fourth call is abandoned after the third call. And a handle whose write returns a
  value (here the string \<^verbatim>\<open>"data"\<close>) lets the caller tell success, which returns that
  value, from abandonment, which returns \<^verbatim>\<open>None\<close>.
\<close>

theorem set_status_retry_budget_counterexample:
  "dev_set_status (fails_then 3 example_blob (PStr ''data'')) 3 True ''1'' = Some (PStr ''data'') \<and>
   set_status (fails_then 3 example_blob (PStr ''data'')) True ''1'' TuyaCache_init =
     (Inr PNone, TuyaCache_init\<lparr>set_status_calls := 3, printed := 3, errors_logged := 1\<rparr>) \<and>
   set_status (fails_then 0 example_blob (PStr ''data'')) True ''1'' TuyaCache_init =
     (Inr (PStr ''data''), TuyaCache_init\<lparr>set_status_calls := 1\<rparr>)"
  by (simp add: set_status_def range5 TuyaCache_init_def fails_then_def Let_def)

text \<open>
  C2 (the code at the failing input). \<^verbatim>\<open>set_status\<close> never acquires the lock that
  \<^verbatim>\<open>status\<close> takes. While another caller holds the lock inside \<^verbatim>\<open>status\<close>, a
  \<^verbatim>\<open>status\<close> call waits, but a \<^verbatim>\<open>set_status\<close> call goes ahead: it clears the cache
  entry and calls the device handle's write, the lock still held by the other caller.
\<close>

theorem set_status_ignores_lock:
  "lock held_cache \<and> status poll_env held_cache = None \<and>
   set_status poll_env True ''1'' held_cache =
     (Inr PNone, held_cache\<lparr>set_status_calls := 1\<rparr>)"
  by (simp add: held_cache_def status_def set_status_def range5 TuyaCache_init_def
      poll_env_def Let_def)

section \<open>The cache entry invariant\<close>

lemma status_entry_inv:
  assumes "entry_inv c" and "status e c = Some (r, c')"
    and "\<forall>n b. dev_status e n = Some b \<longrightarrow> truthy b" and "\<forall>n. py_time e n \<noteq> 0"
  shows "entry_inv c'"
proof -
  from assms(2) have l: "\<not> lock c" by (auto simp add: status_def split: if_splits)
  show ?thesis
  proof (cases "py_not (cached_status c) \<or> 15 < py_time e (time_calls c) - cached_status_time c")
    case False
    with assms(1,2) l show ?thesis by (auto simp add: status_fresh entry_inv_def)
  next
    case True
    let ?c3 = "c\<lparr>lock := True, time_calls := time_calls c + 1, slept := slept c + 1 / 2\<rparr>"
    obtain r4 c4 where g: "get_status e ?c3 = (r4, c4)" by (cases "get_status e ?c3")
    note f = get_status_frame [OF g]
    show ?thesis
    proof (cases r4)
      case (Inl err)
      with assms(2) g have "c' = c4\<lparr>lock := False\<rparr>"
        by (simp add: status_refresh [OF l True])
      with f assms(1) show ?thesis by (simp add: entry_inv_def)
    next
      case (Inr s)
      with assms(2) g have c': "c' = c4\<lparr>cached_status := s, time_calls := time_calls c4 + 1,
          cached_status_time := py_time e (time_calls c4), lock := False\<rparr>"
        by (simp add: status_refresh [OF l True])
      from g Inr get_status_fetched [of e ?c3 s c4] assms(3) have "truthy s" by blast
      with c' assms(4) show ?thesis by (simp add: entry_inv_def)
    qed
  qed
qed

text \<open>
  C9 (as the code has it). The invariant, timestamp 0 iff blob falsy, holds for a new
  cache and after every \<^verbatim>\<open>set_status\<close> call. A \<^verbatim>\<open>status\<close> call preserves it provided
  the device handle only ever returns truthy blobs and the clock never reads 0.
\<close>

theorem entry_inv_preserved:
  "entry_inv TuyaCache_init \<and>
   entry_inv (snd (set_status e state switchid c)) \<and>
   (entry_inv c \<and> status e c = Some (r, c') \<and>
    (\<forall>n b. dev_status e n = Some b \<longrightarrow> truthy b) \<and> (\<forall>n. py_time e n \<noteq> 0) \<longrightarrow>
    entry_inv c')"
proof -
  have "entry_inv TuyaCache_init" by (simp add: entry_inv_def TuyaCache_init_def)
  moreover have "entry_inv (snd (set_status e state switchid c))"
    using set_status_entry [of e state switchid c] by (cases "set_status e state switchid c") (simp add: entry_inv_def)
  ultimately show ?thesis using status_entry_inv [of c e r c'] by blast
qed

theorem entry_inv_preserved_witness:
  "entry_inv TuyaCache_init \<and>
   entry_inv (snd (set_status (fails_then 2 example_blob PNone) True ''1'' stale_cache)) \<and>
   (\<exists>c'. status (fails_then 0 example_blob PNone) TuyaCache_init = Some (Inr example_blob, c') \<and>
      entry_inv c')"
proof -
  let ?e = "fails_then 0 example_blob PNone"
  have a: "\<forall>n b. dev_status ?e n = Some b \<longrightarrow> truthy b"
    by (simp add: fails_then_def example_blob_def)
  have b: "\<forall>n. py_time ?e n \<noteq> 0"
  proof
    fix n :: nat
    have "(0::rat) \<le> of_nat n / 2" by simp
    then show "py_time ?e n \<noteq> 0" by (simp add: fails_then_def)
  qed
  from entry_inv_preserved [of "fails_then 2 example_blob PNone" True "''1''" stale_cache]
  have "entry_inv TuyaCache_init"
    "entry_inv (snd (set_status (fails_then 2 example_blob PNone) True ''1'' stale_cache))"
    by simp_all
  moreover from entry_inv_preserved [of ?e True "''1''" TuyaCache_init "Inr example_blob"]
    status_first_fetch [of example_blob PNone] a b
  have "\<exists>c'. status ?e TuyaCache_init = Some (Inr example_blob, c') \<and> entry_inv c'"
    by blast
  ultimately show ?thesis by blast
qed

text \<open>
  C9 as stated fails when the device handle returns the empty dictionary: \<^verbatim>\<open>status\<close>
  stores it with the clock's reading 1000.5, an empty blob with a set timestamp. At the
  boundary where the clock reads 0 the other direction fails: a non-empty blob with the
  timestamp 0.
\<close>

theorem entry_inv_counterexample:
  "entry_inv TuyaCache_init \<and>
   status (fails_then 0 (PDict []) PNone) TuyaCache_init =
     Some (Inr (PDict []),
       TuyaCache_init\<lparr>cached_status := PDict [], cached_status_time := 2001 / 2,
         status_calls := 1, time_calls := 2, slept := 1 / 2\<rparr>) \<and>
   \<not> entry_inv (TuyaCache_init\<lparr>cached_status := PDict [], cached_status_time := 2001 / 2,
         status_calls := 1, time_calls := 2, slept := 1 / 2\<rparr>) \<and>
   status zero_clock_env TuyaCache_init =
     Some (Inr example_blob,
       TuyaCache_init\<lparr>cached_status := example_blob, status_calls := 1, time_calls := 2,
         slept := 1 / 2\<rparr>) \<and>
   \<not> entry_inv (TuyaCache_init\<lparr>cached_status := example_blob, status_calls := 1,
         time_calls := 2, slept := 1 / 2\<rparr>)"
proof -
  have "entry_inv TuyaCache_init" by (simp add: entry_inv_def TuyaCache_init_def)
  moreover have "\<not> entry_inv (TuyaCache_init\<lparr>cached_status := PDict [],
      cached_status_time := 2001 / 2, status_calls := 1, time_calls := 2, slept := 1 / 2\<rparr>)"
    by (simp add: entry_inv_def)
  moreover have "status zero_clock_env TuyaCache_init =
     Some (Inr example_blob,
       TuyaCache_init\<lparr>cached_status := example_blob, status_calls := 1, time_calls := 2,
         slept := 1 / 2\<rparr>)"
    by (simp add: status_def time_def sleep_def get_status_def range5 TuyaCache_init_def
        zero_clock_env_def Let_def)
  moreover have "\<not> entry_inv (TuyaCache_init\<lparr>cached_status := example_blob, status_calls := 1,
         time_calls := 2, slept := 1 / 2\<rparr>)"
    by (simp add: entry_inv_def TuyaCache_init_def example_blob_def)
  ultimately show ?thesis using status_first_fetch [of "PDict []" PNone] by blast
qed

section \<open>The entity adapter\<close>

text \<open>
  C6 (as the code has it). \<^verbatim>\<open>update\<close> and \<^verbatim>\<open>device_state_attributes\<close> read the data
  points under the key \<^verbatim>\<open>"dps"\<close> of the blob. With the blob
  \<^verbatim>\<open>{"dps": {"1": true, "18": 120, "19": 305, "20": 2300}}\<close> and the adapter configured
  with switch "1" and keys "18", "19", "20", a refresh on a new cache succeeds, the
  switch is on, and the attributes are current 120 (unscaled), consumption 30.5 and
  voltage 230.0 (each divided by 10).
\<close>

theorem adapter_projection:
  "map_option fst (update (fails_then 0 example_blob PNone) example_device TuyaCache_init) =
     Some polled_device \<and>
   is_on polled_device = PBool True \<and> available polled_device \<and>
   device_state_attributes polled_device =
     Inr [(''current'', PInt 120), (''consumption'', PFloat (61 / 2)), (''voltage'', PFloat 230)]"
  by (simp add: update_def status_first_fetch read_dp_def example_blob_def example_dps_def
      example_device_def TuyaDevice_init_def polled_device_def is_on_def
      device_state_attributes_def put_attr_def ATTR_CURRENT_def ATTR_CURRENT_CONSUMPTION_def
      ATTR_VOLTAGE_def Let_def)

text \<open>
  C6 as stated fails: when \<^verbatim>\<open>status\<close> returns the bare mapping
  \<^verbatim>\<open>{"1": true, "18": 120, "19": 305, "20": 2300}\<close>, the lookup of \<^verbatim>\<open>"dps"\<close> raises
  \<^verbatim>\<open>KeyError\<close>: the refresh stores the blob, leaves the state \<^verbatim>\<open>None\<close> and the device
  unavailable, and reading the attributes raises \<^verbatim>\<open>KeyError\<close>.
\<close>

theorem adapter_projection_counterexample:
  "map_option fst (update (fails_then 0 example_dps PNone) example_device TuyaCache_init) =
     Some (example_device\<lparr>d_status := example_dps\<rparr>) \<and>
   is_on (example_device\<lparr>d_status := example_dps\<rparr>) = PNone \<and>
   available (example_device\<lparr>d_status := example_dps\<rparr>) = False \<and>
   device_state_attributes (example_device\<lparr>d_status := example_dps\<rparr>) = Inl KeyError"
  by (simp add: update_def status_first_fetch read_dp_def example_dps_def
      example_device_def TuyaDevice_init_def is_on_def
      device_state_attributes_def put_attr_def Let_def)

text \<open>
  C7. If \<^verbatim>\<open>status\<close> raises, \<^verbatim>\<open>update\<close> sets \<open>available\<close> to false and changes no
  other field of the device: the stored blob and state stay. If \<^verbatim>\<open>status\<close> returns a
  blob that has the switch's data point, \<^verbatim>\<open>update\<close> stores the blob and the state and
  sets \<open>available\<close> to true.
\<close>

theorem update_availability:
  "(status e c = Some (Inl err, c') \<longrightarrow> update e d c = Some (d\<lparr>available := False\<rparr>, c')) \<and>
   (status e c = Some (Inr s, c') \<and> read_dp s (switch_id d) = Inr v \<longrightarrow>
      update e d c = Some (d\<lparr>d_status := s, d_state := v, available := True\<rparr>, c'))"
  by (simp add: update_def Let_def)

theorem update_availability_witness:
  "(\<exists>c'. update (fails_then 5 example_blob PNone) polled_device stale_cache =
      Some (polled_device\<lparr>available := False\<rparr>, c')) \<and>
   (\<exists>c'. update (fails_then 0 example_blob PNone) example_device TuyaCache_init =
      Some (example_device\<lparr>d_status := example_blob, d_state := PBool True, available := True\<rparr>, c'))"
proof -
  have sw: "switch_id example_device = ''1''"
    by (simp add: example_device_def TuyaDevice_init_def)
  from update_availability [of "fails_then 5 example_blob PNone" stale_cache ConnectionError _ polled_device]
    status_stale_exhausted
  have a: "\<exists>c'. update (fails_then 5 example_blob PNone) polled_device stale_cache =
      Some (polled_device\<lparr>available := False\<rparr>, c')" by blast
  from update_availability [of "fails_then 0 example_blob PNone" TuyaCache_init _ _ example_device example_blob "PBool True"]
    status_first_fetch [of example_blob PNone] read_dp_example sw
  have "\<exists>c'. update (fails_then 0 example_blob PNone) example_device TuyaCache_init =
      Some (example_device\<lparr>d_status := example_blob, d_state := PBool True, available := True\<rparr>, c')"
    by simp
  with a show ?thesis by blast
qed

lemma read_dp_missing: "\<not> has_dp st k \<Longrightarrow> \<exists>err. read_dp st k = Inl err"
proof (cases st)
  case (PDict kvs)
  assume h: "\<not> has_dp st k"
  show ?thesis
  proof (cases "map_of kvs ''dps''")
    case None
    with PDict show ?thesis by (simp add: read_dp_def)
  next
    case (Some v)
    with PDict h show ?thesis
      by (cases v) (simp_all add: read_dp_def split: option.splits)
  qed
qed (simp_all add: read_dp_def)

lemma put_attr_missing:
  "k \<noteq> [] \<Longrightarrow> \<not> has_dp st k \<Longrightarrow> \<exists>err. put_attr st (Some k) a scale attrs = Inl err"
  using read_dp_missing [of st k] by (auto simp add: put_attr_def)

text \<open>
  C8. If one of the three attribute keys is configured (a non-empty string, which is what
  the \<^verbatim>\<open>if\<close> tests accept) and the last blob has no such data point, reading the
  attributes raises an error: nothing is omitted or defaulted.
\<close>

theorem attributes_missing_key:
  assumes "attr_current d = Some k \<or> attr_consumption d = Some k \<or> attr_voltage d = Some k"
    and "k \<noteq> []" and "\<not> has_dp (d_status d) k"
  shows "\<exists>err. device_state_attributes d = Inl err"
proof -
  note m = put_attr_missing [OF assms(2,3)]
  from assms(1) consider "attr_current d = Some k" | "attr_consumption d = Some k"
    | "attr_voltage d = Some k" by blast
  then show ?thesis
  proof cases
    case 1
    with m [of ATTR_CURRENT Inr "[]"] show ?thesis
      by (auto simp add: device_state_attributes_def)
  next
    case 2
    show ?thesis
    proof (cases "put_attr (d_status d) (attr_current d) ATTR_CURRENT Inr []")
      case (Inl err)
      then show ?thesis by (simp add: device_state_attributes_def)
    next
      case (Inr attrs1)
      with 2 m [of ATTR_CURRENT_CONSUMPTION truediv10 attrs1] show ?thesis
        by (auto simp add: device_state_attributes_def)
    qed
  next
    case 3
    show ?thesis
    proof (cases "put_attr (d_status d) (attr_current d) ATTR_CURRENT Inr []")
      case (Inl err)
      then show ?thesis by (simp add: device_state_attributes_def)
    next
      case attrs1: (Inr attrs1)
      show ?thesis
      proof (cases "put_attr (d_status d) (attr_consumption d) ATTR_CURRENT_CONSUMPTION
          truediv10 attrs1")
        case (Inl err)
        with attrs1 show ?thesis by (simp add: device_state_attributes_def)
      next
        case (Inr attrs2)
        with attrs1 3 m [of ATTR_VOLTAGE truediv10 attrs2] show ?thesis
          by (auto simp add: device_state_attributes_def)
      qed
    qed
  qed
qed

theorem attributes_missing_key_witness:
  "attr_consumption partial_device = Some ''19'' \<and> (\<exists>err. device_state_attributes partial_device = Inl err)"
proof -
  have a: "attr_consumption partial_device = Some ''19''"
    by (simp add: partial_device_def example_device_def TuyaDevice_init_def)
  have b: "\<not> has_dp (d_status partial_device) ''19''"
    by (simp add: partial_device_def)
  from attributes_missing_key [of partial_device "''19''"] a b show ?thesis by simp
qed

end
